theory Spec2Isabelle
  imports Main "HOL-Library.Word"
begin

unbundle bit_operations_syntax

section \<open>ZSTD adapter of ZFS: block framing, level map and bounded allocator\<close>

text \<open>
  This development embeds \<^verbatim>\<open>module/zstd/zstd.c\<close>. Buffers are addressed relative
  to the pointer the C function receives: a buffer is a function from byte offsets to
  bytes, so that a read past the length the caller announced is a read of whatever lies
  there, as in C. Sizes of type \<^verbatim>\<open>size_t\<close> are natural numbers below \<open>2 ^ 64\<close>
  (an LP64 kernel); the one subtraction that can wrap is written out.
\<close>

subsection \<open>Bytes and buffers\<close>

type_synonym u8 = "8 word"
type_synonym u32 = "32 word"
type_synonym mem = "nat \<Rightarrow> u8"

definition load :: "mem \<Rightarrow> nat \<Rightarrow> nat \<Rightarrow> u8 list" where
  "load m off n = map m [off ..< off + n]"

definition store :: "mem \<Rightarrow> nat \<Rightarrow> u8 list \<Rightarrow> mem" where
  "store m off bs = (\<lambda>i. if off \<le> i \<and> i < off + length bs then bs ! (i - off) else m i)"

text \<open>\<^verbatim>\<open>BE_32\<close> followed by a 32-bit store: the four bytes, most significant first.\<close>

definition BE_32 :: "u32 \<Rightarrow> u8 list" where
  "BE_32 w = [ucast (drop_bit 24 w), ucast (drop_bit 16 w), ucast (drop_bit 8 w), ucast w]"

text \<open>\<^verbatim>\<open>BE_IN32\<close>: the big-endian 32-bit value of the four bytes at an offset.\<close>

definition BE_IN32 :: "mem \<Rightarrow> nat \<Rightarrow> u32" where
  "BE_IN32 m off =
     push_bit 24 (ucast (m off)) OR push_bit 16 (ucast (m (off + 1))) OR
     push_bit 8 (ucast (m (off + 2))) OR ucast (m (off + 3))"

text \<open>Subtraction on \<^verbatim>\<open>size_t\<close> wraps around at \<open>2 ^ 64\<close>.\<close>

definition size_t_sub :: "nat \<Rightarrow> nat \<Rightarrow> nat" where
  "size_t_sub a b = (a + 2 ^ 64 - b) mod 2 ^ 64"

subsection \<open>Declarations the module takes from the ZFS headers\<close>

text \<open>
  The enumerators of \<^verbatim>\<open>enum zio_zstd_levels\<close> that \<^verbatim>\<open>zstd.c\<close> names. The
  declaration of the enumeration itself (its numbering) and the macro
  \<^verbatim>\<open>ZIO_ZSTD_LEVEL_DEFAULT\<close> are in a header that is not among the sources, and so is
  the switch that turns \<^verbatim>\<open>ASSERT3U\<close> on; they are parameters of the model.
\<close>

datatype zio_zstd_levels =
    ZIO_ZSTDLVL_INHERIT
  | ZIO_ZSTDLVL_1
  | ZIO_ZSTDLVL_2
  | ZIO_ZSTDLVL_3
  | ZIO_ZSTDLVL_4
  | ZIO_ZSTDLVL_5
  | ZIO_ZSTDLVL_6
  | ZIO_ZSTDLVL_7
  | ZIO_ZSTDLVL_8
  | ZIO_ZSTDLVL_9
  | ZIO_ZSTDLVL_10
  | ZIO_ZSTDLVL_11
  | ZIO_ZSTDLVL_12
  | ZIO_ZSTDLVL_13
  | ZIO_ZSTDLVL_14
  | ZIO_ZSTDLVL_15
  | ZIO_ZSTDLVL_16
  | ZIO_ZSTDLVL_17
  | ZIO_ZSTDLVL_18
  | ZIO_ZSTDLVL_19
  | ZIO_ZSTDLVL_FAST_1
  | ZIO_ZSTDLVL_FAST_2
  | ZIO_ZSTDLVL_FAST_3
  | ZIO_ZSTDLVL_FAST_4
  | ZIO_ZSTDLVL_FAST_5
  | ZIO_ZSTDLVL_FAST_6
  | ZIO_ZSTDLVL_FAST_7
  | ZIO_ZSTDLVL_FAST_8
  | ZIO_ZSTDLVL_FAST_9
  | ZIO_ZSTDLVL_FAST_10
  | ZIO_ZSTDLVL_FAST_20
  | ZIO_ZSTDLVL_FAST_30
  | ZIO_ZSTDLVL_FAST_40
  | ZIO_ZSTDLVL_FAST_50
  | ZIO_ZSTDLVL_FAST_60
  | ZIO_ZSTDLVL_FAST_70
  | ZIO_ZSTDLVL_FAST_80
  | ZIO_ZSTDLVL_FAST_90
  | ZIO_ZSTDLVL_FAST_100
  | ZIO_ZSTDLVL_FAST_500
  | ZIO_ZSTDLVL_FAST_1000
  | ZIO_ZSTDLVL_DEFAULT

record zio_h =
  zio_zstd_levels_val :: "zio_zstd_levels \<Rightarrow> int"
  ZIO_ZSTD_LEVEL_DEFAULT :: int
  ZFS_DEBUG :: bool

definition all_levels :: "zio_zstd_levels list" where
  "all_levels =
  [ZIO_ZSTDLVL_INHERIT, ZIO_ZSTDLVL_1, ZIO_ZSTDLVL_2, ZIO_ZSTDLVL_3,
   ZIO_ZSTDLVL_4, ZIO_ZSTDLVL_5, ZIO_ZSTDLVL_6, ZIO_ZSTDLVL_7, ZIO_ZSTDLVL_8,
   ZIO_ZSTDLVL_9, ZIO_ZSTDLVL_10, ZIO_ZSTDLVL_11, ZIO_ZSTDLVL_12,
   ZIO_ZSTDLVL_13, ZIO_ZSTDLVL_14, ZIO_ZSTDLVL_15, ZIO_ZSTDLVL_16,
   ZIO_ZSTDLVL_17, ZIO_ZSTDLVL_18, ZIO_ZSTDLVL_19, ZIO_ZSTDLVL_FAST_1,
   ZIO_ZSTDLVL_FAST_2, ZIO_ZSTDLVL_FAST_3, ZIO_ZSTDLVL_FAST_4,
   ZIO_ZSTDLVL_FAST_5, ZIO_ZSTDLVL_FAST_6, ZIO_ZSTDLVL_FAST_7,
   ZIO_ZSTDLVL_FAST_8, ZIO_ZSTDLVL_FAST_9, ZIO_ZSTDLVL_FAST_10,
   ZIO_ZSTDLVL_FAST_20, ZIO_ZSTDLVL_FAST_30, ZIO_ZSTDLVL_FAST_40,
   ZIO_ZSTDLVL_FAST_50, ZIO_ZSTDLVL_FAST_60, ZIO_ZSTDLVL_FAST_70,
   ZIO_ZSTDLVL_FAST_80, ZIO_ZSTDLVL_FAST_90, ZIO_ZSTDLVL_FAST_100,
   ZIO_ZSTDLVL_FAST_500, ZIO_ZSTDLVL_FAST_1000, ZIO_ZSTDLVL_DEFAULT]"

definition positive_levels :: "(zio_zstd_levels \<times> int) list" where
  "positive_levels =
  [(ZIO_ZSTDLVL_1, 1), (ZIO_ZSTDLVL_2, 2), (ZIO_ZSTDLVL_3, 3),
   (ZIO_ZSTDLVL_4, 4), (ZIO_ZSTDLVL_5, 5), (ZIO_ZSTDLVL_6, 6),
   (ZIO_ZSTDLVL_7, 7), (ZIO_ZSTDLVL_8, 8), (ZIO_ZSTDLVL_9, 9),
   (ZIO_ZSTDLVL_10, 10), (ZIO_ZSTDLVL_11, 11), (ZIO_ZSTDLVL_12, 12),
   (ZIO_ZSTDLVL_13, 13), (ZIO_ZSTDLVL_14, 14), (ZIO_ZSTDLVL_15, 15),
   (ZIO_ZSTDLVL_16, 16), (ZIO_ZSTDLVL_17, 17), (ZIO_ZSTDLVL_18, 18),
   (ZIO_ZSTDLVL_19, 19)]"

text \<open>
  Modelled from the spec: the declaration of \<^verbatim>\<open>enum zio_zstd_levels\<close> and the macro
  \<^verbatim>\<open>ZIO_ZSTD_LEVEL_DEFAULT\<close> are missing. The specification has the enumerators as
  distinct tags that fit the 8-bit level field, a positive level numerically identical to
  its codec cookie, and the positive level 3 as the system default.
\<close>

definition zio_h_ok :: "zio_h \<Rightarrow> bool" where
  "zio_h_ok h \<longleftrightarrow>
     distinct (map (zio_zstd_levels_val h) all_levels) \<and>
     list_all (\<lambda>x. 0 \<le> zio_zstd_levels_val h x \<and> zio_zstd_levels_val h x < 256) all_levels \<and>
     list_all (\<lambda>(x, k). zio_zstd_levels_val h x = k) positive_levels \<and>
     ZIO_ZSTD_LEVEL_DEFAULT h = zio_zstd_levels_val h ZIO_ZSTDLVL_3"

text \<open>From \<^verbatim>\<open>sys/zio_compress.h\<close>.\<close>

definition ZIO_COMPLEVEL_INHERIT :: int where
  "ZIO_COMPLEVEL_INHERIT = 0"

definition ZIO_COMPLEVEL_DEFAULT :: int where
  "ZIO_COMPLEVEL_DEFAULT = 255"

subsection \<open>Level map\<close>

record levelmap =
  cookie :: int
  level :: int

definition fastlevels :: "zio_h \<Rightarrow> levelmap list" where
  "fastlevels h =
  [\<lparr>cookie = zio_zstd_levels_val h ZIO_ZSTDLVL_1, level = zio_zstd_levels_val h ZIO_ZSTDLVL_1\<rparr>,
   \<lparr>cookie = zio_zstd_levels_val h ZIO_ZSTDLVL_2, level = zio_zstd_levels_val h ZIO_ZSTDLVL_2\<rparr>,
   \<lparr>cookie = zio_zstd_levels_val h ZIO_ZSTDLVL_3, level = zio_zstd_levels_val h ZIO_ZSTDLVL_3\<rparr>,
   \<lparr>cookie = zio_zstd_levels_val h ZIO_ZSTDLVL_4, level = zio_zstd_levels_val h ZIO_ZSTDLVL_4\<rparr>,
   \<lparr>cookie = zio_zstd_levels_val h ZIO_ZSTDLVL_5, level = zio_zstd_levels_val h ZIO_ZSTDLVL_5\<rparr>,
   \<lparr>cookie = zio_zstd_levels_val h ZIO_ZSTDLVL_6, level = zio_zstd_levels_val h ZIO_ZSTDLVL_6\<rparr>,
   \<lparr>cookie = zio_zstd_levels_val h ZIO_ZSTDLVL_7, level = zio_zstd_levels_val h ZIO_ZSTDLVL_7\<rparr>,
   \<lparr>cookie = zio_zstd_levels_val h ZIO_ZSTDLVL_8, level = zio_zstd_levels_val h ZIO_ZSTDLVL_8\<rparr>,
   \<lparr>cookie = zio_zstd_levels_val h ZIO_ZSTDLVL_9, level = zio_zstd_levels_val h ZIO_ZSTDLVL_9\<rparr>,
   \<lparr>cookie = zio_zstd_levels_val h ZIO_ZSTDLVL_10, level = zio_zstd_levels_val h ZIO_ZSTDLVL_10\<rparr>,
   \<lparr>cookie = zio_zstd_levels_val h ZIO_ZSTDLVL_11, level = zio_zstd_levels_val h ZIO_ZSTDLVL_11\<rparr>,
   \<lparr>cookie = zio_zstd_levels_val h ZIO_ZSTDLVL_12, level = zio_zstd_levels_val h ZIO_ZSTDLVL_12\<rparr>,
   \<lparr>cookie = zio_zstd_levels_val h ZIO_ZSTDLVL_13, level = zio_zstd_levels_val h ZIO_ZSTDLVL_13\<rparr>,
   \<lparr>cookie = zio_zstd_levels_val h ZIO_ZSTDLVL_14, level = zio_zstd_levels_val h ZIO_ZSTDLVL_14\<rparr>,
   \<lparr>cookie = zio_zstd_levels_val h ZIO_ZSTDLVL_15, level = zio_zstd_levels_val h ZIO_ZSTDLVL_15\<rparr>,
   \<lparr>cookie = zio_zstd_levels_val h ZIO_ZSTDLVL_16, level = zio_zstd_levels_val h ZIO_ZSTDLVL_16\<rparr>,
   \<lparr>cookie = zio_zstd_levels_val h ZIO_ZSTDLVL_17, level = zio_zstd_levels_val h ZIO_ZSTDLVL_17\<rparr>,
   \<lparr>cookie = zio_zstd_levels_val h ZIO_ZSTDLVL_18, level = zio_zstd_levels_val h ZIO_ZSTDLVL_18\<rparr>,
   \<lparr>cookie = zio_zstd_levels_val h ZIO_ZSTDLVL_19, level = zio_zstd_levels_val h ZIO_ZSTDLVL_19\<rparr>,
   \<lparr>cookie = - 1, level = zio_zstd_levels_val h ZIO_ZSTDLVL_FAST_1\<rparr>,
   \<lparr>cookie = - 2, level = zio_zstd_levels_val h ZIO_ZSTDLVL_FAST_2\<rparr>,
   \<lparr>cookie = - 3, level = zio_zstd_levels_val h ZIO_ZSTDLVL_FAST_3\<rparr>,
   \<lparr>cookie = - 4, level = zio_zstd_levels_val h ZIO_ZSTDLVL_FAST_4\<rparr>,
   \<lparr>cookie = - 5, level = zio_zstd_levels_val h ZIO_ZSTDLVL_FAST_5\<rparr>,
   \<lparr>cookie = - 6, level = zio_zstd_levels_val h ZIO_ZSTDLVL_FAST_6\<rparr>,
   \<lparr>cookie = - 7, level = zio_zstd_levels_val h ZIO_ZSTDLVL_FAST_7\<rparr>,
   \<lparr>cookie = - 8, level = zio_zstd_levels_val h ZIO_ZSTDLVL_FAST_8\<rparr>,
   \<lparr>cookie = - 9, level = zio_zstd_levels_val h ZIO_ZSTDLVL_FAST_9\<rparr>,
   \<lparr>cookie = - 10, level = zio_zstd_levels_val h ZIO_ZSTDLVL_FAST_10\<rparr>,
   \<lparr>cookie = - 20, level = zio_zstd_levels_val h ZIO_ZSTDLVL_FAST_20\<rparr>,
   \<lparr>cookie = - 30, level = zio_zstd_levels_val h ZIO_ZSTDLVL_FAST_30\<rparr>,
   \<lparr>cookie = - 40, level = zio_zstd_levels_val h ZIO_ZSTDLVL_FAST_40\<rparr>,
   \<lparr>cookie = - 50, level = zio_zstd_levels_val h ZIO_ZSTDLVL_FAST_50\<rparr>,
   \<lparr>cookie = - 60, level = zio_zstd_levels_val h ZIO_ZSTDLVL_FAST_60\<rparr>,
   \<lparr>cookie = - 70, level = zio_zstd_levels_val h ZIO_ZSTDLVL_FAST_70\<rparr>,
   \<lparr>cookie = - 80, level = zio_zstd_levels_val h ZIO_ZSTDLVL_FAST_80\<rparr>,
   \<lparr>cookie = - 90, level = zio_zstd_levels_val h ZIO_ZSTDLVL_FAST_90\<rparr>,
   \<lparr>cookie = - 100, level = zio_zstd_levels_val h ZIO_ZSTDLVL_FAST_100\<rparr>,
   \<lparr>cookie = - 500, level = zio_zstd_levels_val h ZIO_ZSTDLVL_FAST_500\<rparr>,
   \<lparr>cookie = - 1000, level = zio_zstd_levels_val h ZIO_ZSTDLVL_FAST_1000\<rparr>]"

text \<open>The two linear scans; \<open>None\<close> when the loop runs off the end of the table.\<close>

fun scan_cookie :: "levelmap list \<Rightarrow> int \<Rightarrow> int option" where
  "scan_cookie [] c = None"
| "scan_cookie (e # es) c = (if cookie e = c then Some (level e) else scan_cookie es c)"

fun scan_level :: "levelmap list \<Rightarrow> int \<Rightarrow> int option" where
  "scan_level [] l = None"
| "scan_level (e # es) l = (if level e = l then Some (cookie e) else scan_level es l)"

text \<open>A miss is logged with \<^verbatim>\<open>printk\<close> and answered with the default; nothing fails.\<close>

definition zstd_cookie_to_enum :: "zio_h \<Rightarrow> int \<Rightarrow> int" where
  "zstd_cookie_to_enum h lvl =
     (case scan_cookie (fastlevels h) lvl of
        Some l \<Rightarrow> l
      | None \<Rightarrow> ZIO_ZSTD_LEVEL_DEFAULT h)"

definition zstd_enum_to_cookie :: "zio_h \<Rightarrow> int \<Rightarrow> int" where
  "zstd_enum_to_cookie h elevel =
     (case scan_level (fastlevels h) elevel of
        Some c \<Rightarrow> c
      | None \<Rightarrow> 3)"

subsection \<open>The codec library\<close>

text \<open>
  The Zstandard library is outside the module: its entry points are parameters. A call
  answers with an error code (\<^verbatim>\<open>ZSTD_isError\<close> holds of it) or with the number of
  bytes it produced; both answers carry the bytes the call left at the start of its
  destination. Creating a context goes through the module's allocator and yields a
  context or \<^verbatim>\<open>NULL\<close>.
\<close>

datatype zstd_ret = ZSTD_error "u8 list" | ZSTD_done "u8 list"

record zstd_lib =
  ZSTD_createCCtx_advanced :: bool
  ZSTD_compressCCtx :: "nat \<Rightarrow> u8 list \<Rightarrow> int \<Rightarrow> zstd_ret"
  ZSTD_createDCtx_advanced :: bool
  ZSTD_decompressDCtx :: "nat \<Rightarrow> u8 list \<Rightarrow> zstd_ret"
  ZSTD_estimateDCtxSize :: nat

text \<open>
  The contract of the library that the facade relies on: output fits the capacity it was
  given, and what was compressed decompresses to the input when the destination is large
  enough for it.
\<close>

definition zstd_lib_ok :: "zstd_lib \<Rightarrow> bool" where
  "zstd_lib_ok lib \<longleftrightarrow>
     (\<forall>cap src lvl out. ZSTD_compressCCtx lib cap src lvl = ZSTD_done out \<longrightarrow>
        length out \<le> cap \<and>
        (\<forall>dcap. length src \<le> dcap \<longrightarrow> ZSTD_decompressDCtx lib dcap out = ZSTD_done src))"

subsection \<open>Compress and decompress\<close>

text \<open>
  An \<^verbatim>\<open>ASSERT3U\<close> that fails stops the kernel; the assertions are compiled in where
  \<open>ZFS_DEBUG\<close> holds and are empty otherwise.
\<close>

datatype panic = ASSERT3U_failed

text \<open>
  \<^verbatim>\<open>zstd_compress\<close>. The result is the returned size and the destination buffer after
  the call.
\<close>

definition zstd_compress ::
  "zio_h \<Rightarrow> zstd_lib \<Rightarrow> mem \<Rightarrow> mem \<Rightarrow> nat \<Rightarrow> nat \<Rightarrow> int \<Rightarrow> panic + (nat \<times> mem)" where
  "zstd_compress h lib s_start d_start s_len d_len n =
     (let levelcookie = zstd_enum_to_cookie h n in
      if ZFS_DEBUG h \<and> \<not> d_len \<ge> 4 then Inl ASSERT3U_failed
      else if ZFS_DEBUG h \<and> \<not> d_len \<le> s_len then Inl ASSERT3U_failed
      else if ZFS_DEBUG h \<and> \<not> levelcookie \<noteq> 0 then Inl ASSERT3U_failed
      else
        let levelcookie =
              (if levelcookie = ZIO_COMPLEVEL_DEFAULT then ZIO_ZSTD_LEVEL_DEFAULT h
               else levelcookie);
            levelcookie =
              (if levelcookie = zio_zstd_levels_val h ZIO_ZSTDLVL_DEFAULT
               then ZIO_ZSTD_LEVEL_DEFAULT h else levelcookie)
        in
          if \<not> ZSTD_createCCtx_advanced lib then Inr (s_len, d_start)
          else
            (case ZSTD_compressCCtx lib (size_t_sub (size_t_sub d_len 4) 4)
                    (load s_start 0 s_len) levelcookie of
               ZSTD_error junk \<Rightarrow> Inr (s_len, store d_start (4 + 4) junk)
             | ZSTD_done payload \<Rightarrow>
                 (let c_len = length payload;
                      dest = store d_start (4 + 4) payload;
                      bufsize = (word_of_nat c_len :: u32);
                      dest = store dest 0 (BE_32 bufsize);
                      dest = store dest 4 (BE_32 (word_of_int levelcookie))
                  in Inr (c_len + 4 + 4, dest))))"

text \<open>
  \<^verbatim>\<open>zstd_get_level\<close>. The out-parameter \<^verbatim>\<open>level\<close> is \<open>None\<close> for a \<^verbatim>\<open>NULL\<close>
  pointer and \<open>Some v\<close> for a pointer to a byte holding \<open>v\<close>.
\<close>

definition zstd_get_level ::
  "zio_h \<Rightarrow> mem \<Rightarrow> nat \<Rightarrow> int option \<Rightarrow> panic + (int \<times> int option)" where
  "zstd_get_level h s_start s_len lvl =
     (let levelcookie = BE_IN32 s_start 4;
          zstdlevel = zstd_cookie_to_enum h (sint levelcookie) mod 256
      in
        if ZFS_DEBUG h \<and> \<not> zstdlevel \<noteq> zio_zstd_levels_val h ZIO_ZSTDLVL_INHERIT
        then Inl ASSERT3U_failed
        else Inr (0, case lvl of None \<Rightarrow> None | Some _ \<Rightarrow> Some zstdlevel))"

text \<open>
  \<^verbatim>\<open>zstd_decompress_level\<close>. The result is the return code, the destination buffer
  and the out-parameter after the call.
\<close>

definition zstd_decompress_level ::
  "zio_h \<Rightarrow> zstd_lib \<Rightarrow> mem \<Rightarrow> mem \<Rightarrow> nat \<Rightarrow> nat \<Rightarrow> int option \<Rightarrow>
     panic + (int \<times> mem \<times> int option)" where
  "zstd_decompress_level h lib s_start d_start s_len d_len lvl =
     (let bufsize = BE_IN32 s_start 0;
          levelcookie = sint (BE_IN32 s_start 4);
          zstdlevel = zstd_cookie_to_enum h levelcookie mod 256
      in
        if ZFS_DEBUG h \<and> \<not> d_len \<ge> s_len then Inl ASSERT3U_failed
        else if ZFS_DEBUG h \<and> \<not> zstdlevel \<noteq> zio_zstd_levels_val h ZIO_ZSTDLVL_INHERIT
        then Inl ASSERT3U_failed
        else if unat bufsize + 4 > s_len then Inr (1, d_start, lvl)
        else if \<not> ZSTD_createDCtx_advanced lib then Inr (1, d_start, lvl)
        else
          (case ZSTD_decompressDCtx lib d_len (load s_start (4 + 4) (unat bufsize)) of
             ZSTD_error junk \<Rightarrow> Inr (1, store d_start 0 junk, lvl)
           | ZSTD_done out \<Rightarrow>
               Inr (0, store d_start 0 out,
                    case lvl of None \<Rightarrow> None | Some _ \<Rightarrow> Some zstdlevel)))"

definition zstd_decompress ::
  "zio_h \<Rightarrow> zstd_lib \<Rightarrow> mem \<Rightarrow> mem \<Rightarrow> nat \<Rightarrow> nat \<Rightarrow> int \<Rightarrow>
     panic + (int \<times> mem \<times> int option)" where
  "zstd_decompress h lib s_start d_start s_len d_len n =
     zstd_decompress_level h lib s_start d_start s_len d_len None"

subsection \<open>Bounded allocator\<close>

text \<open>
  Pointers to buffers are addresses, \<open>None\<close> is \<^verbatim>\<open>NULL\<close>. A mutex is the flag
  whether it is held; \<^verbatim>\<open>mutex_tryenter\<close> succeeds on a mutex that is not held. The
  fields of \<^verbatim>\<open>struct zstd_pool\<close> are \<open>mem\<close>, \<open>size'\<close>, \<open>barrier\<close> and
  \<open>timeout\<close>; those of \<^verbatim>\<open>struct zstd_fallback_mem\<close> carry the prefix \<open>fb_\<close>.
\<close>

type_synonym addr = nat

datatype zstd_kmem_type =
    ZSTD_KMEM_UNKNOWN
  | ZSTD_KMEM_DEFAULT
  | ZSTD_KMEM_POOL
  | ZSTD_KMEM_DCTX
  | ZSTD_KMEM_COUNT

definition ZSTD_POOL_TIMEOUT :: int where
  "ZSTD_POOL_TIMEOUT = 60 * 2"

record zstd_pool =
  mem :: "addr option"
  size' :: nat
  barrier :: bool
  timeout :: int

text \<open>The owning slot of a pooled buffer is the index of the slot in its array.\<close>

record zstd_kmem =
  kmem_type :: zstd_kmem_type
  kmem_size :: nat
  pool :: "nat option"

record zstd_fallback_mem =
  fb_mem_size :: nat
  fb_mem :: "addr option"
  fb_barrier :: bool

text \<open>\<^verbatim>\<open>sizeof (struct zstd_kmem)\<close> on an LP64 kernel.\<close>

definition sizeof_zstd_kmem :: nat where
  "sizeof_zstd_kmem = 24"

text \<open>
  The platform heap: the allocation headers at the start of the live buffers, and the
  answers the platform allocator will give to the calls to come, in order (a fresh
  address, or \<^verbatim>\<open>NULL\<close>; when the list is used up the allocator has no memory left).
\<close>

record heap =
  kmem :: "addr \<rightharpoonup> zstd_kmem"
  vmem :: "addr option list"

datatype km_flag = KM_SLEEP | KM_NOSLEEP

definition vmem_alloc :: "nat \<Rightarrow> km_flag \<Rightarrow> heap \<Rightarrow> addr option \<times> heap" where
  "vmem_alloc sz flag hp =
     (case vmem hp of
        [] \<Rightarrow> (None, hp)
      | a # as \<Rightarrow> (a, hp\<lparr>vmem := as\<rparr>))"

definition kmem_free :: "addr option \<Rightarrow> nat \<Rightarrow> heap \<Rightarrow> heap" where
  "kmem_free p sz hp = (case p of None \<Rightarrow> hp | Some a \<Rightarrow> hp\<lparr>kmem := (kmem hp)(a := None)\<rparr>)"

text \<open>A zeroed header, and the header found at an address.\<close>

definition zstd_kmem_zero :: zstd_kmem where
  "zstd_kmem_zero = \<lparr>kmem_type = ZSTD_KMEM_UNKNOWN, kmem_size = 0, pool = None\<rparr>"

definition header_at :: "heap \<Rightarrow> addr \<Rightarrow> zstd_kmem" where
  "header_at hp a = (case kmem hp a of None \<Rightarrow> zstd_kmem_zero | Some z \<Rightarrow> z)"

record zstd_state =
  pool_count :: int
  zstd_dctx_fallback :: zstd_fallback_mem
  zstd_mempool_cctx :: "zstd_pool list option"
  zstd_mempool_dctx :: "zstd_pool list option"
  the_heap :: heap

text \<open>
  \<^verbatim>\<open>zstd_mempool_alloc\<close>, first loop. \<open>visit\<close> is the loop body for one slot, with the
  buffer chosen so far; one reading of the clock, \<open>now\<close>, serves the whole call.
\<close>

definition visit ::
  "int \<Rightarrow> nat \<Rightarrow> zstd_pool \<Rightarrow> addr option \<Rightarrow> heap \<Rightarrow> addr option \<times> zstd_pool \<times> heap" where
  "visit now sz p m hp =
     (if barrier p then (m, p, hp)
      else if m = None \<and> mem p \<noteq> None \<and> sz \<le> size' p
      then (mem p, p\<lparr>barrier := True, timeout := now + ZSTD_POOL_TIMEOUT\<rparr>, hp)
      else if mem p \<noteq> None \<and> now > timeout p
      then (m, p\<lparr>mem := None, size' := 0, timeout := 0\<rparr>, kmem_free (mem p) (size' p) hp)
      else (m, p, hp))"

fun first_pass ::
  "int \<Rightarrow> nat \<Rightarrow> zstd_pool list \<Rightarrow> addr option \<Rightarrow> heap \<Rightarrow>
     addr option \<times> zstd_pool list \<times> heap" where
  "first_pass now sz [] m hp = (m, [], hp)"
| "first_pass now sz (p # ps) m hp =
     (case visit now sz p m hp of
        (m', p', hp') \<Rightarrow>
          (case first_pass now sz ps m' hp' of
             (m'', ps', hp'') \<Rightarrow> (m'', p' # ps', hp'')))"

text \<open>
  Second loop: the first free slot that can be locked gets a new buffer, and the function
  returns there whether the allocation succeeded or not. \<open>None\<close>: the loop ran to its
  end.
\<close>

fun second_pass ::
  "int \<Rightarrow> nat \<Rightarrow> nat \<Rightarrow> zstd_pool list \<Rightarrow> heap \<Rightarrow>
     (addr option \<times> zstd_pool list \<times> heap) option" where
  "second_pass now sz i [] hp = None"
| "second_pass now sz i (p # ps) hp =
     (if \<not> barrier p \<and> mem p = None then
        (case vmem_alloc sz KM_SLEEP hp of
           (Some a, hp') \<Rightarrow>
             Some (Some a,
                   p\<lparr>mem := Some a, size' := sz, barrier := True,
                     timeout := now + ZSTD_POOL_TIMEOUT\<rparr> # ps,
                   hp'\<lparr>kmem := (kmem hp')(a \<mapsto>
                     \<lparr>kmem_type = ZSTD_KMEM_POOL, kmem_size = sz, pool = Some i\<rparr>)\<rparr>)
         | (None, hp') \<Rightarrow> Some (None, p # ps, hp'))
      else
        (case second_pass now sz (Suc i) ps hp of
           None \<Rightarrow> None
         | Some (r, ps', hp') \<Rightarrow> Some (r, p # ps', hp')))"

text \<open>
  \<^verbatim>\<open>zstd_mempool_alloc\<close>: the loops run over the first \<^verbatim>\<open>ZSTD_POOL_MAX\<close> slots of the
  array; the result is the buffer, the array and the heap after the call.
\<close>

definition zstd_mempool_alloc ::
  "int \<Rightarrow> int \<Rightarrow> zstd_pool list option \<Rightarrow> nat \<Rightarrow> heap \<Rightarrow>
     addr option \<times> zstd_pool list option \<times> heap" where
  "zstd_mempool_alloc ZSTD_POOL_MAX now zstd_mempool sz hp =
     (case zstd_mempool of
        None \<Rightarrow> (None, None, hp)
      | Some slots \<Rightarrow>
          (let n = nat ZSTD_POOL_MAX in
           case first_pass now sz (take n slots) None hp of
             (Some a, ps1, hp1) \<Rightarrow> (Some a, Some (ps1 @ drop n slots), hp1)
           | (None, ps1, hp1) \<Rightarrow>
               (case second_pass now sz 0 ps1 hp1 of
                  Some (r, ps2, hp2) \<Rightarrow> (r, Some (ps2 @ drop n slots), hp2)
                | None \<Rightarrow>
                    (case vmem_alloc sz KM_NOSLEEP hp1 of
                       (Some a, hp2) \<Rightarrow>
                         (Some a, Some (ps1 @ drop n slots),
                          hp2\<lparr>kmem := (kmem hp2)(a \<mapsto>
                            \<lparr>kmem_type = ZSTD_KMEM_DEFAULT, kmem_size = sz, pool = None\<rparr>)\<rparr>)
                     | (None, hp2) \<Rightarrow> (None, Some (ps1 @ drop n slots), hp2)))))"

text \<open>
  \<^verbatim>\<open>zstd_dctx_alloc\<close>. The result is the pointer handed to the codec (past the header)
  and the state after the call; \<open>None\<close> when the call waits for the mutex of the fallback
  slab, which is held.
\<close>

definition zstd_dctx_alloc ::
  "int \<Rightarrow> zstd_state \<Rightarrow> nat \<Rightarrow> (addr option \<times> zstd_state) option" where
  "zstd_dctx_alloc now st sz =
     (let nbytes = (sizeof_zstd_kmem + sz) mod 2 ^ 64 in
      case zstd_mempool_alloc (pool_count st) now (zstd_mempool_dctx st) nbytes (the_heap st) of
        (Some a, slots, hp1) \<Rightarrow>
          Some (Some (a + sizeof_zstd_kmem), st\<lparr>zstd_mempool_dctx := slots, the_heap := hp1\<rparr>)
      | (None, slots, hp1) \<Rightarrow>
          (case vmem_alloc nbytes KM_SLEEP hp1 of
             (Some a, hp2) \<Rightarrow>
               Some (Some (a + sizeof_zstd_kmem),
                     st\<lparr>zstd_mempool_dctx := slots,
                        the_heap := hp2\<lparr>kmem := (kmem hp2)(a \<mapsto>
                          \<lparr>kmem_type = ZSTD_KMEM_DEFAULT, kmem_size = nbytes, pool = None\<rparr>)\<rparr>\<rparr>)
           | (None, hp2) \<Rightarrow>
               (if fb_barrier (zstd_dctx_fallback st) then None
                else
                  (case fb_mem (zstd_dctx_fallback st) of
                     None \<Rightarrow>
                       Some (None,
                             st\<lparr>zstd_mempool_dctx := slots, the_heap := hp2,
                                zstd_dctx_fallback := (zstd_dctx_fallback st)\<lparr>fb_barrier := True\<rparr>\<rparr>)
                   | Some a \<Rightarrow>
                       Some (Some (a + sizeof_zstd_kmem),
                             st\<lparr>zstd_mempool_dctx := slots,
                                the_heap := hp2\<lparr>kmem := (kmem hp2)(a \<mapsto>
                                  (header_at hp2 a)\<lparr>kmem_type := ZSTD_KMEM_DCTX,
                                                     kmem_size := nbytes\<rparr>)\<rparr>,
                                zstd_dctx_fallback :=
                                  (zstd_dctx_fallback st)\<lparr>fb_barrier := True\<rparr>\<rparr>)))))"

subsection \<open>Initialisation\<close>

text \<open>What the module takes from the kernel: the number of CPUs and the page size.\<close>

record kernel =
  boot_ncpus :: int
  PAGESIZE :: nat

text \<open>
  Modelled from the spec: the macro \<^verbatim>\<open>P2ROUNDUP\<close> of \<^verbatim>\<open>sys/sysmacros.h\<close> is not
  among the sources; the specification has the size of the slab ``rounded up to page
  size''.
\<close>

definition P2ROUNDUP :: "nat \<Rightarrow> nat \<Rightarrow> nat" where
  "P2ROUNDUP x align = ((x + align - 1) div align) * align"

definition zstd_pool_zero :: zstd_pool where
  "zstd_pool_zero = \<lparr>mem = None, size' = 0, barrier = False, timeout = 0\<rparr>"

text \<open>
  \<^verbatim>\<open>zstd_mempool_init\<close>: two zeroed arrays of \<^verbatim>\<open>ZSTD_POOL_MAX\<close> slots
  (\<^verbatim>\<open>kmem_zalloc\<close> with \<^verbatim>\<open>KM_SLEEP\<close>, whose result the code uses unchecked).
\<close>

definition zstd_mempool_init :: "zstd_state \<Rightarrow> zstd_state" where
  "zstd_mempool_init st =
     st\<lparr>zstd_mempool_cctx := Some (replicate (nat (pool_count st)) zstd_pool_zero),
        zstd_mempool_dctx := Some (replicate (nat (pool_count st)) zstd_pool_zero)\<rparr>"

definition create_fallback_mem :: "nat \<Rightarrow> heap \<Rightarrow> zstd_fallback_mem \<times> heap" where
  "create_fallback_mem sz h =
     (case vmem_alloc sz KM_SLEEP h of
        (None, h') \<Rightarrow> (\<lparr>fb_mem_size = sz, fb_mem = None, fb_barrier = False\<rparr>, h')
      | (Some a, h') \<Rightarrow>
          (\<lparr>fb_mem_size = sz, fb_mem = Some a, fb_barrier = False\<rparr>,
           h'\<lparr>kmem := (kmem h')(a \<mapsto> zstd_kmem_zero)\<rparr>))"

definition zstd_meminit :: "kernel \<Rightarrow> zstd_lib \<Rightarrow> zstd_state \<Rightarrow> zstd_state" where
  "zstd_meminit k lib st =
     (let st1 = zstd_mempool_init st;
          (fb, h) = create_fallback_mem
                      (P2ROUNDUP (ZSTD_estimateDCtxSize lib + sizeof_zstd_kmem) (PAGESIZE k))
                      (the_heap st1)
      in st1\<lparr>zstd_dctx_fallback := fb, the_heap := h\<rparr>)"

text \<open>\<^verbatim>\<open>zstd_init\<close>; the product is taken to fit an \<^verbatim>\<open>int\<close>.\<close>

definition zstd_init :: "kernel \<Rightarrow> zstd_lib \<Rightarrow> zstd_state \<Rightarrow> zstd_state" where
  "zstd_init k lib st = zstd_meminit k lib (st\<lparr>pool_count := boot_ncpus k * 4\<rparr>)"

text \<open>The module before \<^verbatim>\<open>zstd_init\<close>: the static initialisers of its globals.\<close>

definition zstd_state_boot :: "addr option list \<Rightarrow> zstd_state" where
  "zstd_state_boot answers =
     \<lparr>pool_count = 16,
      zstd_dctx_fallback = \<lparr>fb_mem_size = 0, fb_mem = None, fb_barrier = False\<rparr>,
      zstd_mempool_cctx = None, zstd_mempool_dctx = None,
      the_heap = \<lparr>kmem = Map.empty, vmem = answers\<rparr>\<rparr>"

subsection \<open>Concrete instances\<close>

text \<open>
  A numbering of the enumeration that meets \<^const>\<open>zio_h_ok\<close>, and a small codec that
  meets \<^const>\<open>zstd_lib_ok\<close>: it compresses a run of at most 255 zero bytes into the one
  byte holding the length of the run, and declines everything else.
\<close>

fun zio_zstd_levels_num :: "zio_zstd_levels \<Rightarrow> int" where
  "zio_zstd_levels_num ZIO_ZSTDLVL_INHERIT = 0"
| "zio_zstd_levels_num ZIO_ZSTDLVL_1 = 1"
| "zio_zstd_levels_num ZIO_ZSTDLVL_2 = 2"
| "zio_zstd_levels_num ZIO_ZSTDLVL_3 = 3"
| "zio_zstd_levels_num ZIO_ZSTDLVL_4 = 4"
| "zio_zstd_levels_num ZIO_ZSTDLVL_5 = 5"
| "zio_zstd_levels_num ZIO_ZSTDLVL_6 = 6"
| "zio_zstd_levels_num ZIO_ZSTDLVL_7 = 7"
| "zio_zstd_levels_num ZIO_ZSTDLVL_8 = 8"
| "zio_zstd_levels_num ZIO_ZSTDLVL_9 = 9"
| "zio_zstd_levels_num ZIO_ZSTDLVL_10 = 10"
| "zio_zstd_levels_num ZIO_ZSTDLVL_11 = 11"
| "zio_zstd_levels_num ZIO_ZSTDLVL_12 = 12"
| "zio_zstd_levels_num ZIO_ZSTDLVL_13 = 13"
| "zio_zstd_levels_num ZIO_ZSTDLVL_14 = 14"
| "zio_zstd_levels_num ZIO_ZSTDLVL_15 = 15"
| "zio_zstd_levels_num ZIO_ZSTDLVL_16 = 16"
| "zio_zstd_levels_num ZIO_ZSTDLVL_17 = 17"
| "zio_zstd_levels_num ZIO_ZSTDLVL_18 = 18"
| "zio_zstd_levels_num ZIO_ZSTDLVL_19 = 19"
| "zio_zstd_levels_num ZIO_ZSTDLVL_FAST_1 = 103"
| "zio_zstd_levels_num ZIO_ZSTDLVL_FAST_2 = 104"
| "zio_zstd_levels_num ZIO_ZSTDLVL_FAST_3 = 105"
| "zio_zstd_levels_num ZIO_ZSTDLVL_FAST_4 = 106"
| "zio_zstd_levels_num ZIO_ZSTDLVL_FAST_5 = 107"
| "zio_zstd_levels_num ZIO_ZSTDLVL_FAST_6 = 108"
| "zio_zstd_levels_num ZIO_ZSTDLVL_FAST_7 = 109"
| "zio_zstd_levels_num ZIO_ZSTDLVL_FAST_8 = 110"
| "zio_zstd_levels_num ZIO_ZSTDLVL_FAST_9 = 111"
| "zio_zstd_levels_num ZIO_ZSTDLVL_FAST_10 = 112"
| "zio_zstd_levels_num ZIO_ZSTDLVL_FAST_20 = 113"
| "zio_zstd_levels_num ZIO_ZSTDLVL_FAST_30 = 114"
| "zio_zstd_levels_num ZIO_ZSTDLVL_FAST_40 = 115"
| "zio_zstd_levels_num ZIO_ZSTDLVL_FAST_50 = 116"
| "zio_zstd_levels_num ZIO_ZSTDLVL_FAST_60 = 117"
| "zio_zstd_levels_num ZIO_ZSTDLVL_FAST_70 = 118"
| "zio_zstd_levels_num ZIO_ZSTDLVL_FAST_80 = 119"
| "zio_zstd_levels_num ZIO_ZSTDLVL_FAST_90 = 120"
| "zio_zstd_levels_num ZIO_ZSTDLVL_FAST_100 = 121"
| "zio_zstd_levels_num ZIO_ZSTDLVL_FAST_500 = 122"
| "zio_zstd_levels_num ZIO_ZSTDLVL_FAST_1000 = 123"
| "zio_zstd_levels_num ZIO_ZSTDLVL_DEFAULT = 250"

definition zio_h_debug :: zio_h where
  "zio_h_debug =
     \<lparr>zio_zstd_levels_val = zio_zstd_levels_num, ZIO_ZSTD_LEVEL_DEFAULT = 3, ZFS_DEBUG = True\<rparr>"

definition zeros_compress :: "nat \<Rightarrow> u8 list \<Rightarrow> int \<Rightarrow> zstd_ret" where
  "zeros_compress cap src lvl =
     (if 1 \<le> cap \<and> length src < 256 \<and> list_all (\<lambda>b. b = 0) src
      then ZSTD_done [word_of_nat (length src)] else ZSTD_error [])"

definition zeros_decompress :: "nat \<Rightarrow> u8 list \<Rightarrow> zstd_ret" where
  "zeros_decompress dcap src =
     (case src of
        [b] \<Rightarrow> if unat b \<le> dcap then ZSTD_done (replicate (unat b) 0) else ZSTD_error []
      | _ \<Rightarrow> ZSTD_error [])"

definition zeros_lib :: zstd_lib where
  "zeros_lib =
     \<lparr>ZSTD_createCCtx_advanced = True, ZSTD_compressCCtx = zeros_compress,
      ZSTD_createDCtx_advanced = True, ZSTD_decompressDCtx = zeros_decompress,
      ZSTD_estimateDCtxSize = 1000\<rparr>"

text \<open>A machine with one CPU and pages of 4096 bytes.\<close>

definition kernel_1cpu :: kernel where
  "kernel_1cpu = \<lparr>boot_ncpus = 1, PAGESIZE = 4096\<rparr>"

text \<open>
  The module after \<^verbatim>\<open>zstd_init\<close> on that machine, where the platform allocator had
  one buffer to give, at address 8192: it became the fallback slab.
\<close>

definition zstd_state_1cpu :: zstd_state where
  "zstd_state_1cpu = zstd_init kernel_1cpu zeros_lib (zstd_state_boot [Some 8192])"




text \<open>A buffer holding the given bytes, followed by zero bytes.\<close>

definition mem_of :: "u8 list \<Rightarrow> mem" where
  "mem_of bs = (\<lambda>i. if i < length bs then bs ! i else 0)"

section \<open>Properties\<close>

subsection \<open>Buffers and the wire format\<close>

lemma load_store_same: "load (store m off bs) off (length bs) = bs"
  by (rule nth_equalityI) (simp_all add: load_def store_def)

lemma load_store_other:
  "off + n \<le> off' \<or> off' + length bs \<le> off \<Longrightarrow> load (store m off' bs) off n = load m off n"
  by (auto simp: load_def store_def)

lemma load_cong: "(\<And>i. off \<le> i \<Longrightarrow> i < off + n \<Longrightarrow> m i = m' i) \<Longrightarrow> load m off n = load m' off n"
  by (simp add: load_def)

lemma length_load: "length (load m off n) = n"
  by (simp add: load_def)

lemma length_BE_32: "length (BE_32 w) = 4"
  by (simp add: BE_32_def)

lemma BE_IN32_cong: "(\<And>i. i < 4 \<Longrightarrow> m (off + i) = m' (off' + i)) \<Longrightarrow> BE_IN32 m off = BE_IN32 m' off'"
proof -
  assume a: "\<And>i. i < 4 \<Longrightarrow> m (off + i) = m' (off' + i)"
  from a [of 0] a [of 1] a [of 2] a [of 3] show ?thesis
    by (simp add: BE_IN32_def)
qed

lemma BE_IN32_BE_32: "BE_IN32 (store m off (BE_32 w)) off = w"
proof -
  have "BE_IN32 (store m off (BE_32 w)) off =
    push_bit 24 (ucast (ucast (drop_bit 24 w) :: u8)) OR push_bit 16 (ucast (ucast (drop_bit 16 w) :: u8)) OR
     push_bit 8 (ucast (ucast (drop_bit 8 w) :: u8)) OR ucast (ucast w :: u8)"
    by (simp add: BE_IN32_def store_def BE_32_def)
  also have "\<dots> = w"
  proof (rule bit_word_eqI)
    fix n :: nat
    assume "n < LENGTH(32)"
    then consider "n < 8" | "8 \<le> n" "n < 16" | "16 \<le> n" "n < 24" | "24 \<le> n" "n < 32"
      by fastforce
    then show "bit (push_bit 24 (ucast (ucast (drop_bit 24 w) :: u8)) OR
                push_bit 16 (ucast (ucast (drop_bit 16 w) :: u8)) OR
                push_bit 8 (ucast (ucast (drop_bit 8 w) :: u8)) OR ucast (ucast w :: u8) :: u32) n
               = bit w n"
      by cases (auto simp: bit_simps)
  qed
  finally show ?thesis .
qed

lemma BE_IN32_store_other:
  "off + 4 \<le> off' \<or> off' + length bs \<le> off \<Longrightarrow> BE_IN32 (store m off' bs) off = BE_IN32 m off"
  by (auto simp: BE_IN32_def store_def)

lemma frame_header:
  fixes payload :: "u8 list"
  defines "d \<equiv> \<lambda>d_start c. store (store (store d_start 8 payload) 0
                           (BE_32 (word_of_nat (length payload))))
                    4 (BE_32 (word_of_int c))"
  shows "BE_IN32 (d d_start c) 0 = word_of_nat (length payload)"
    and "BE_IN32 (d d_start c) 4 = word_of_int c"
    and "load (d d_start c) 8 (length payload) = payload"
proof -
  show "BE_IN32 (d d_start c) 0 = word_of_nat (length payload)"
    unfolding d_def by (simp add: BE_IN32_store_other BE_IN32_BE_32)
  show "BE_IN32 (d d_start c) 4 = word_of_int c"
    unfolding d_def by (simp add: BE_IN32_BE_32)
  show "load (d d_start c) 8 (length payload) = payload"
    unfolding d_def by (rule nth_equalityI) (simp_all add: load_def store_def BE_32_def)
qed

lemma sint_word_of_int_32: "- (2 ^ 31) \<le> c \<Longrightarrow> c < 2 ^ 31 \<Longrightarrow> sint (word_of_int c :: u32) = c"
  by (simp add: signed_of_int signed_take_bit_int_eq_self)

lemma unat_word_of_nat_32: "n < 2 ^ 32 \<Longrightarrow> unat (word_of_nat n :: u32) = n"
  by (simp add: unat_of_nat)

lemma size_t_sub_small: "b \<le> a \<Longrightarrow> a < 2 ^ 64 \<Longrightarrow> size_t_sub a b = a - b"
proof -
  assume a: "b \<le> a" "a < 2 ^ 64"
  define N :: nat where "N = 2 ^ 64"
  from a have lt: "a - b < N" by (simp add: N_def)
  from a have "a + N - b = (a - b) + N" by simp
  then have "(a + N - b) mod N = ((a - b) + N) mod N" by (simp only:)
  also have "\<dots> = (a - b) mod N" by (simp only: mod_add_self2)
  also from lt have "\<dots> = a - b" by (rule mod_less)
  finally show ?thesis by (simp only: size_t_sub_def N_def)
qed

subsection \<open>The level map\<close>

lemma scan_cookie_None: "scan_cookie es c = None \<longleftrightarrow> c \<notin> cookie ` set es"
  by (induction es) auto

lemma scan_level_Some: "scan_level es l = Some c \<Longrightarrow> c \<in> cookie ` set es"
  by (induction es) (auto split: if_splits)

lemma scan_cookie_Some: "scan_cookie es c = Some l \<Longrightarrow> l \<in> level ` set es"
  by (induction es) (auto split: if_splits)

lemma all_levels_UNIV: "x \<in> set all_levels"
  by (cases x) (simp_all add: all_levels_def)

lemma lvl_val_eq_iff:
  assumes "zio_h_ok h"
  shows "zio_zstd_levels_val h x = zio_zstd_levels_val h y \<longleftrightarrow> x = y"
proof -
  from assms have "inj_on (zio_zstd_levels_val h) (set all_levels)"
    by (simp add: zio_h_ok_def distinct_map)
  then show ?thesis
    using all_levels_UNIV by (auto dest: inj_onD)
qed

lemma lvl_val_range:
  assumes "zio_h_ok h"
  shows "0 \<le> zio_zstd_levels_val h x \<and> zio_zstd_levels_val h x < 256"
proof -
  from assms have "list_all (\<lambda>x. 0 \<le> zio_zstd_levels_val h x \<and> zio_zstd_levels_val h x < 256) all_levels"
    by (simp add: zio_h_ok_def)
  then show ?thesis
    using all_levels_UNIV [of x] unfolding list_all_iff by blast
qed

lemma lvl_val_numeral:
  assumes "zio_h_ok h"
  shows "zio_zstd_levels_val h ZIO_ZSTDLVL_1 = 1"
    "zio_zstd_levels_val h ZIO_ZSTDLVL_2 = 2"
    "zio_zstd_levels_val h ZIO_ZSTDLVL_3 = 3"
    "zio_zstd_levels_val h ZIO_ZSTDLVL_4 = 4"
    "zio_zstd_levels_val h ZIO_ZSTDLVL_5 = 5"
    "zio_zstd_levels_val h ZIO_ZSTDLVL_6 = 6"
    "zio_zstd_levels_val h ZIO_ZSTDLVL_7 = 7"
    "zio_zstd_levels_val h ZIO_ZSTDLVL_8 = 8"
    "zio_zstd_levels_val h ZIO_ZSTDLVL_9 = 9"
    "zio_zstd_levels_val h ZIO_ZSTDLVL_10 = 10"
    "zio_zstd_levels_val h ZIO_ZSTDLVL_11 = 11"
    "zio_zstd_levels_val h ZIO_ZSTDLVL_12 = 12"
    "zio_zstd_levels_val h ZIO_ZSTDLVL_13 = 13"
    "zio_zstd_levels_val h ZIO_ZSTDLVL_14 = 14"
    "zio_zstd_levels_val h ZIO_ZSTDLVL_15 = 15"
    "zio_zstd_levels_val h ZIO_ZSTDLVL_16 = 16"
    "zio_zstd_levels_val h ZIO_ZSTDLVL_17 = 17"
    "zio_zstd_levels_val h ZIO_ZSTDLVL_18 = 18"
    "zio_zstd_levels_val h ZIO_ZSTDLVL_19 = 19"
  using assms by (simp_all add: zio_h_ok_def positive_levels_def)

lemma enum_to_cookie_range:
  assumes "zio_h_ok h"
  shows "- 1000 \<le> zstd_enum_to_cookie h n \<and> zstd_enum_to_cookie h n \<le> 19 \<and> zstd_enum_to_cookie h n \<noteq> 0"
proof (cases "scan_level (fastlevels h) n")
  case None
  then show ?thesis by (simp add: zstd_enum_to_cookie_def)
next
  case (Some c)
  from scan_level_Some [OF Some] have "- 1000 \<le> c \<and> c \<le> 19 \<and> c \<noteq> 0"
    by (auto simp: fastlevels_def lvl_val_numeral [OF assms])
  with Some show ?thesis by (simp add: zstd_enum_to_cookie_def)
qed

lemma cookie_to_enum_not_inherit:
  assumes "zio_h_ok h"
  shows "zstd_cookie_to_enum h c mod 256 = zstd_cookie_to_enum h c"
    and "zstd_cookie_to_enum h c \<noteq> zio_zstd_levels_val h ZIO_ZSTDLVL_INHERIT"
proof -
  have "\<exists>x. zstd_cookie_to_enum h c = zio_zstd_levels_val h x \<and> x \<noteq> ZIO_ZSTDLVL_INHERIT"
  proof (cases "scan_cookie (fastlevels h) c")
    case None
    with assms have "zstd_cookie_to_enum h c = zio_zstd_levels_val h ZIO_ZSTDLVL_3"
      by (simp add: zstd_cookie_to_enum_def zio_h_ok_def)
    then show ?thesis by blast
  next
    case (Some l)
    from scan_cookie_Some [OF Some] show ?thesis
      using Some by (auto simp: fastlevels_def zstd_cookie_to_enum_def)
  qed
  then obtain x where x: "zstd_cookie_to_enum h c = zio_zstd_levels_val h x" "x \<noteq> ZIO_ZSTDLVL_INHERIT"
    by blast
  from x lvl_val_range [OF assms, of x] show "zstd_cookie_to_enum h c mod 256 = zstd_cookie_to_enum h c"
    by simp
  from x show "zstd_cookie_to_enum h c \<noteq> zio_zstd_levels_val h ZIO_ZSTDLVL_INHERIT"
    by (simp add: lvl_val_eq_iff [OF assms])
qed

lemma default_not_positive:
  assumes "zio_h_ok h" and "1 \<le> c" and "c \<le> 19"
  shows "c \<noteq> zio_zstd_levels_val h ZIO_ZSTDLVL_DEFAULT"
proof -
  have "\<forall>x \<in> set (map fst positive_levels).
          zio_zstd_levels_val h ZIO_ZSTDLVL_DEFAULT \<noteq> zio_zstd_levels_val h x"
    by (simp add: lvl_val_eq_iff [OF assms(1)] positive_levels_def)
  then have "zio_zstd_levels_val h ZIO_ZSTDLVL_DEFAULT \<notin> {1 .. 19}"
    by (simp add: positive_levels_def lvl_val_numeral [OF assms(1)]) presburger
  with assms(2,3) show ?thesis by auto
qed

lemma compress_cookie_normal:
  assumes "zio_h_ok h"
  shows "zstd_enum_to_cookie h n \<noteq> ZIO_COMPLEVEL_DEFAULT"
    and "zstd_enum_to_cookie h n \<noteq> zio_zstd_levels_val h ZIO_ZSTDLVL_DEFAULT"
proof -
  note r = enum_to_cookie_range [OF assms, of n]
  from r show "zstd_enum_to_cookie h n \<noteq> ZIO_COMPLEVEL_DEFAULT"
    by (simp add: ZIO_COMPLEVEL_DEFAULT_def)
  show "zstd_enum_to_cookie h n \<noteq> zio_zstd_levels_val h ZIO_ZSTDLVL_DEFAULT"
  proof (cases "1 \<le> zstd_enum_to_cookie h n")
    case True
    with r show ?thesis by (simp add: default_not_positive [OF assms])
  next
    case False
    with r lvl_val_range [OF assms, of ZIO_ZSTDLVL_DEFAULT] show ?thesis by linarith
  qed
qed

lemma enum_to_cookie_to_enum:
  assumes "zio_h_ok h" and "x \<noteq> ZIO_ZSTDLVL_INHERIT" and "x \<noteq> ZIO_ZSTDLVL_DEFAULT"
  shows "zstd_cookie_to_enum h (zstd_enum_to_cookie h (zio_zstd_levels_val h x)) =
         zio_zstd_levels_val h x"
  using assms(2,3)
  by (cases x)
    (simp_all add: zstd_cookie_to_enum_def zstd_enum_to_cookie_def fastlevels_def
      lvl_val_eq_iff [OF assms(1)] lvl_val_numeral [OF assms(1)])

lemma inherit_default_cookie:
  assumes "zio_h_ok h" and "x = ZIO_ZSTDLVL_INHERIT \<or> x = ZIO_ZSTDLVL_DEFAULT"
  shows "zstd_enum_to_cookie h (zio_zstd_levels_val h x) = 3"
  using assms(2)
  by (auto simp: zstd_enum_to_cookie_def fastlevels_def lvl_val_eq_iff [OF assms(1)])

lemma cookie_3_default:
  assumes "zio_h_ok h"
  shows "zstd_cookie_to_enum h 3 = ZIO_ZSTD_LEVEL_DEFAULT h"
  using assms
  by (simp add: zstd_cookie_to_enum_def fastlevels_def lvl_val_numeral [OF assms] zio_h_ok_def)

subsection \<open>The entry points, with the level map settled\<close>

lemma zstd_compress_unfold:
  assumes "zio_h_ok h"
  shows "zstd_compress h lib s_start d_start s_len d_len n =
     (if ZFS_DEBUG h \<and> (d_len < 4 \<or> s_len < d_len) then Inl ASSERT3U_failed
      else if \<not> ZSTD_createCCtx_advanced lib then Inr (s_len, d_start)
      else
        (case ZSTD_compressCCtx lib (size_t_sub (size_t_sub d_len 4) 4)
                (load s_start 0 s_len) (zstd_enum_to_cookie h n) of
           ZSTD_error junk \<Rightarrow> Inr (s_len, store d_start 8 junk)
         | ZSTD_done payload \<Rightarrow>
             Inr (length payload + 8,
                  store (store (store d_start 8 payload) 0
                           (BE_32 (word_of_nat (length payload))))
                    4 (BE_32 (word_of_int (zstd_enum_to_cookie h n))))))"
  using enum_to_cookie_range [OF assms, of n] compress_cookie_normal [OF assms, of n]
  by (auto simp: zstd_compress_def Let_def split: zstd_ret.splits)

lemma zstd_get_level_unfold:
  assumes "zio_h_ok h"
  shows "zstd_get_level h s_start s_len lvl =
    Inr (0, case lvl of None \<Rightarrow> None
            | Some _ \<Rightarrow> Some (zstd_cookie_to_enum h (sint (BE_IN32 s_start 4))))"
  by (simp add: zstd_get_level_def Let_def cookie_to_enum_not_inherit [OF assms])

lemma zstd_decompress_level_unfold:
  assumes "zio_h_ok h"
  shows "zstd_decompress_level h lib s_start d_start s_len d_len lvl =
     (if ZFS_DEBUG h \<and> d_len < s_len then Inl ASSERT3U_failed
      else if unat (BE_IN32 s_start 0) + 4 > s_len then Inr (1, d_start, lvl)
      else if \<not> ZSTD_createDCtx_advanced lib then Inr (1, d_start, lvl)
      else
        (case ZSTD_decompressDCtx lib d_len (load s_start 8 (unat (BE_IN32 s_start 0))) of
           ZSTD_error junk \<Rightarrow> Inr (1, store d_start 0 junk, lvl)
         | ZSTD_done out \<Rightarrow>
             Inr (0, store d_start 0 out,
                  case lvl of None \<Rightarrow> None
                  | Some _ \<Rightarrow> Some (zstd_cookie_to_enum h (sint (BE_IN32 s_start 4))))))"
  by (simp add: zstd_decompress_level_def Let_def cookie_to_enum_not_inherit [OF assms] not_le)

lemma zstd_compress_level_word:
  assumes "zio_h_ok h"
    and "zstd_compress h lib s_start d_start s_len d_len n = Inr (C, d)"
    and "C \<noteq> s_len"
  shows "BE_IN32 d 4 = word_of_int (zstd_enum_to_cookie h n)"
proof -
  from assms(2,3) obtain payload where
    "d = store (store (store d_start 8 payload) 0 (BE_32 (word_of_nat (length payload))))
                 4 (BE_32 (word_of_int (zstd_enum_to_cookie h n)))"
    by (auto simp: zstd_compress_unfold [OF assms(1)] split: if_splits zstd_ret.splits)
  then show ?thesis
    by (simp add: frame_header)
qed

subsection \<open>What the decoder checks, and what it does not\<close>

lemma zstd_decompress_level_guard:
  assumes "zio_h_ok h" and "ZFS_DEBUG h \<longrightarrow> s_len \<le> d_len"
    and "s_len < unat (BE_IN32 s_start 0) + 4"
  shows "zstd_decompress_level h lib s_start d_start s_len d_len lvl = Inr (1, d_start, lvl)"
  using assms(2,3) by (auto simp: zstd_decompress_level_unfold [OF assms(1)])

lemma zstd_decompress_level_reaches_codec:
  assumes "zio_h_ok h" and "ZFS_DEBUG h \<longrightarrow> s_len \<le> d_len"
    and "unat (BE_IN32 s_start 0) + 4 \<le> s_len"
    and "ZSTD_createDCtx_advanced lib"
    and "ZSTD_decompressDCtx lib d_len (load s_start 8 (unat (BE_IN32 s_start 0))) = ZSTD_done out"
  shows "zstd_decompress_level h lib s_start d_start s_len d_len None =
           Inr (0, store d_start 0 out, None)"
  using assms(2-) by (auto simp: zstd_decompress_level_unfold [OF assms(1)])

lemma zstd_decompress_ignores_cookie:
  assumes "zio_h_ok h" and "length bs = 4"
  shows "zstd_decompress h lib (store s_start 4 bs) d_start s_len d_len n =
         zstd_decompress h lib s_start d_start s_len d_len n"
  using assms(2)
  by (simp add: zstd_decompress_def zstd_decompress_level_unfold [OF assms(1)]
      BE_IN32_store_other load_store_other split: zstd_ret.splits)

subsection \<open>Allocator and initialisation\<close>

lemma zstd_init_unfold:
  "zstd_init k lib st =
     (let n = nat (boot_ncpus k * 4);
          sz = P2ROUNDUP (ZSTD_estimateDCtxSize lib + sizeof_zstd_kmem) (PAGESIZE k);
          (fb, h) = create_fallback_mem sz (the_heap st)
      in st\<lparr>pool_count := boot_ncpus k * 4,
            zstd_mempool_cctx := Some (replicate n zstd_pool_zero),
            zstd_mempool_dctx := Some (replicate n zstd_pool_zero),
            zstd_dctx_fallback := fb, the_heap := h\<rparr>)"
  by (simp add: zstd_init_def zstd_meminit_def zstd_mempool_init_def Let_def split: prod.splits)

lemma create_fallback_mem_size: "fb_mem_size (fst (create_fallback_mem sz h)) = sz"
  by (simp add: create_fallback_mem_def split: prod.splits option.splits)

lemma zstd_init_fields:
  "pool_count (zstd_init k lib st) = boot_ncpus k * 4"
  "zstd_mempool_cctx (zstd_init k lib st) = Some (replicate (nat (boot_ncpus k * 4)) zstd_pool_zero)"
  "zstd_mempool_dctx (zstd_init k lib st) = Some (replicate (nat (boot_ncpus k * 4)) zstd_pool_zero)"
  "fb_mem_size (zstd_dctx_fallback (zstd_init k lib st)) =
     P2ROUNDUP (ZSTD_estimateDCtxSize lib + sizeof_zstd_kmem) (PAGESIZE k)"
  using create_fallback_mem_size [of "P2ROUNDUP (ZSTD_estimateDCtxSize lib + sizeof_zstd_kmem) (PAGESIZE k)" "the_heap st"]
  by (auto simp: zstd_init_unfold Let_def split: prod.splits)

















subsection \<open>The concrete instances\<close>

lemma zio_h_debug_ok: "zio_h_ok zio_h_debug"
  by (simp add: zio_h_ok_def zio_h_debug_def all_levels_def positive_levels_def)

lemma zio_h_debug_simps:
  "zio_zstd_levels_val zio_h_debug = zio_zstd_levels_num"
  "ZIO_ZSTD_LEVEL_DEFAULT zio_h_debug = 3"
  "ZFS_DEBUG zio_h_debug"
  by (simp_all add: zio_h_debug_def)

lemma zeros_lib_simps:
  "ZSTD_createCCtx_advanced zeros_lib" "ZSTD_compressCCtx zeros_lib = zeros_compress"
  "ZSTD_createDCtx_advanced zeros_lib" "ZSTD_decompressDCtx zeros_lib = zeros_decompress"
  "ZSTD_estimateDCtxSize zeros_lib = 1000"
  by (simp_all add: zeros_lib_def)

lemma zeros_lib_ok: "zstd_lib_ok zeros_lib"
proof -
  have "zeros_decompress dcap [word_of_nat (length src)] = ZSTD_done src"
    if "length src < 256" "list_all (\<lambda>b. b = 0) src" "length src \<le> dcap" for src dcap
  proof -
    from that(1) have u: "unat (word_of_nat (length src) :: u8) = length src"
      by (simp add: unat_of_nat)
    from that(2) have "src = replicate (length src) 0"
      by (induction src) simp_all
    with u that(3) show ?thesis
      by (simp add: zeros_decompress_def)
  qed
  then show ?thesis
    by (auto simp: zstd_lib_ok_def zeros_lib_def zeros_compress_def split: if_splits)
qed

lemma load_zeros: "load (mem_of []) off n = replicate n 0"
  by (simp add: load_def mem_of_def map_replicate_const)

lemma zeros_compress_16: "zeros_compress 8 (replicate 16 0) c = ZSTD_done [16]"
  by (simp add: zeros_compress_def list_all_iff)

lemma zeros_decompress_16: "16 \<le> dcap \<Longrightarrow> zeros_decompress dcap [16] = ZSTD_done (replicate 16 0)"
  by (simp add: zeros_decompress_def)

lemma zeros_frame:
  "zstd_compress zio_h_debug zeros_lib (mem_of []) d_start 16 16 n =
     Inr (9, store (store (store d_start 8 [16]) 0 (BE_32 1)) 4
                (BE_32 (word_of_int (zstd_enum_to_cookie zio_h_debug n))))"
  by (subst zstd_compress_unfold [OF zio_h_debug_ok])
    (simp add: zio_h_debug_simps zeros_lib_simps load_zeros size_t_sub_small zeros_compress_16)

lemma zeros_frame_cookie:
  assumes "zstd_compress zio_h_debug zeros_lib (mem_of []) d_start 16 16 n = Inr (9, d)"
  shows "load d 4 4 = BE_32 (word_of_int (zstd_enum_to_cookie zio_h_debug n))"
proof -
  from assms have "d = store (store (store d_start 8 [16]) 0 (BE_32 1)) 4
                (BE_32 (word_of_int (zstd_enum_to_cookie zio_h_debug n)))"
    by (simp add: zeros_frame)
  then show ?thesis
    using load_store_same [of _ 4 "BE_32 (word_of_int (zstd_enum_to_cookie zio_h_debug n))"]
    by (simp add: length_BE_32)
qed

lemma zstd_decompress_zeros:
  assumes "unat (BE_IN32 s 0) = 1" and "s 8 = 16" and "5 \<le> s_len" and "s_len \<le> 16"
  shows "zstd_decompress zio_h_debug zeros_lib s out s_len 16 n =
           Inr (0, store out 0 (replicate 16 0), None)"
  using assms
  by (simp add: zstd_decompress_def zstd_decompress_level_unfold [OF zio_h_debug_ok]
      zeros_lib_simps zio_h_debug_simps load_def zeros_decompress_16)

lemma BE_IN32_mem_of_len1: "BE_IN32 (mem_of (0 # 0 # 0 # 1 # bs)) 0 = 1"
  by (simp add: BE_IN32_def mem_of_def)

lemma BE_IN32_mem_of_20: "BE_IN32 (mem_of [0, 0, 0, 1, 0, 0, 0, 20, 16]) 4 = 20"
  by (simp add: BE_IN32_def mem_of_def)

lemma cookie_20_unknown: "20 \<notin> cookie ` set (fastlevels zio_h_debug)"
  by (simp add: fastlevels_def zio_h_debug_simps)

lemma cookie_of_fast_3: "zstd_enum_to_cookie zio_h_debug (zio_zstd_levels_val zio_h_debug ZIO_ZSTDLVL_FAST_3) = - 3"
  by (simp add: zstd_enum_to_cookie_def fastlevels_def zio_h_debug_simps)

lemma cookie_of_1: "zstd_enum_to_cookie zio_h_debug (zio_zstd_levels_val zio_h_debug ZIO_ZSTDLVL_1) = 1"
  by (simp add: zstd_enum_to_cookie_def fastlevels_def zio_h_debug_simps)

lemma BE_32_minus_3: "BE_32 (word_of_int (- 3)) = [255, 255, 255, 253]"
  by (simp add: BE_32_def)

lemma BE_32_1: "BE_32 (word_of_int 1) = [0, 0, 0, 1]"
  by (simp add: BE_32_def)

lemma init_1cpu:
  "zstd_state_1cpu =
     \<lparr>pool_count = 4,
      zstd_dctx_fallback = \<lparr>fb_mem_size = 4096, fb_mem = Some 8192, fb_barrier = False\<rparr>,
      zstd_mempool_cctx = Some (replicate 4 zstd_pool_zero),
      zstd_mempool_dctx = Some (replicate 4 zstd_pool_zero),
      the_heap = \<lparr>kmem = [8192 \<mapsto> zstd_kmem_zero], vmem = []\<rparr>\<rparr>"
  by (simp add: zstd_state_1cpu_def zstd_init_unfold kernel_1cpu_def zeros_lib_simps
      zstd_state_boot_def create_fallback_mem_def vmem_alloc_def P2ROUNDUP_def sizeof_zstd_kmem_def)

lemma mempool_alloc_exhausted:
  "zstd_mempool_alloc 4 now (Some (replicate 4 zstd_pool_zero)) sz \<lparr>kmem = km, vmem = []\<rparr> =
     (None, Some (replicate 4 zstd_pool_zero), \<lparr>kmem = km, vmem = []\<rparr>)"
  by (simp add: zstd_mempool_alloc_def visit_def zstd_pool_zero_def vmem_alloc_def
      numeral_eq_Suc)



section \<open>The claims\<close>

text \<open>
  C1. Round trip: when \<^verbatim>\<open>zstd_compress\<close> of a buffer \<open>B\<close> of length \<open>L \<ge> 1\<close> with
  \<open>d_len = L\<close> returns \<open>C \<noteq> L\<close>, \<^verbatim>\<open>zstd_decompress\<close> of any buffer that starts with
  the first \<open>C\<close> bytes of the output returns 0 and leaves the \<open>L\<close> bytes of \<open>B\<close> in
  its destination. The codec is taken to meet its contract, the decompression context to
  be available, the payload length to fit the 32-bit field of the header, and the
  destination of the decompression to hold \<open>L\<close> bytes (and to pass the size assertion
  where assertions are compiled in).
\<close>

theorem zstd_roundtrip:
  assumes "zio_h_ok h" and "zstd_lib_ok lib" and "ZSTD_createDCtx_advanced lib"
    and "1 \<le> L"
    and "zstd_compress h lib B d_start L L n = Inr (C, d)"
    and "C \<noteq> L"
    and "C - 8 < 2 ^ 32"
    and "\<forall>i<C. s i = d i"
    and "L \<le> d_len" and "ZFS_DEBUG h \<longrightarrow> C \<le> d_len"
  shows "zstd_decompress h lib s out C d_len n' = Inr (0, store out 0 (load B 0 L), None) \<and>
         load (store out 0 (load B 0 L)) 0 L = load B 0 L"
proof -
  let ?c = "zstd_enum_to_cookie h n"
  from assms(5,6) obtain payload where
    p: "ZSTD_compressCCtx lib (size_t_sub (size_t_sub L 4) 4) (load B 0 L) ?c = ZSTD_done payload"
    and C: "C = length payload + 8"
    and d: "d = store (store (store d_start 8 payload) 0 (BE_32 (word_of_nat (length payload))))
                 4 (BE_32 (word_of_int ?c))"
    by (auto simp: zstd_compress_unfold [OF assms(1)] split: if_splits zstd_ret.splits)
  from assms(2) p assms(9) have dec: "ZSTD_decompressDCtx lib d_len payload = ZSTD_done (load B 0 L)"
    unfolding zstd_lib_ok_def by (simp add: length_load)
  from assms(7) C have len: "length payload < 2 ^ 32" by simp
  from assms(8) C have "BE_IN32 s 0 = BE_IN32 d 0"
    by (intro BE_IN32_cong) simp
  then have "BE_IN32 s 0 = word_of_nat (length payload)"
    unfolding d by (simp add: frame_header)
  with len have bufsize: "unat (BE_IN32 s 0) = length payload"
    by (simp add: unat_word_of_nat_32)
  from assms(8) C have "load s 8 (length payload) = load d 8 (length payload)"
    by (intro load_cong) simp
  then have src: "load s 8 (length payload) = payload"
    unfolding d by (simp add: frame_header)
  from assms(10) C bufsize src dec assms(3)
  have "zstd_decompress h lib s out C d_len n' = Inr (0, store out 0 (load B 0 L), None)"
    by (auto simp: zstd_decompress_def zstd_decompress_level_unfold [OF assms(1)])
  moreover have "load (store out 0 (load B 0 L)) 0 L = load B 0 L"
    using load_store_same [of out 0 "load B 0 L"] by (simp add: length_load)
  ultimately show ?thesis ..
qed

theorem zstd_roundtrip_witness:
  "zio_h_ok zio_h_debug \<and> zstd_lib_ok zeros_lib \<and> ZSTD_createDCtx_advanced zeros_lib \<and>
   (\<exists>d. zstd_compress zio_h_debug zeros_lib (mem_of []) (mem_of []) 16 16 1 = Inr (9, d) \<and>
        zstd_decompress zio_h_debug zeros_lib d (mem_of [255]) 9 16 0 =
          Inr (0, store (mem_of [255]) 0 (replicate 16 0), None))"
proof -
  obtain d where d: "zstd_compress zio_h_debug zeros_lib (mem_of []) (mem_of []) 16 16 1 = Inr (9, d)"
    unfolding zeros_frame by blast
  have "zstd_decompress zio_h_debug zeros_lib d (mem_of [255]) 9 16 0 =
          Inr (0, store (mem_of [255]) 0 (load (mem_of []) 0 16), None)"
    using zstd_roundtrip [OF zio_h_debug_ok zeros_lib_ok _ _ d, of d 16 "mem_of [255]" 0]
    by (simp add: zeros_lib_simps)
  then have "zstd_decompress zio_h_debug zeros_lib d (mem_of [255]) 9 16 0 =
          Inr (0, store (mem_of [255]) 0 (replicate 16 0), None)"
    by (simp only: load_zeros)
  with d have "zstd_compress zio_h_debug zeros_lib (mem_of []) (mem_of []) 16 16 1 = Inr (9, d) \<and>
        zstd_decompress zio_h_debug zeros_lib d (mem_of [255]) 9 16 0 =
          Inr (0, store (mem_of [255]) 0 (replicate 16 0), None)"
    by (rule conjI)
  then have "\<exists>d. zstd_compress zio_h_debug zeros_lib (mem_of []) (mem_of []) 16 16 1 = Inr (9, d) \<and>
        zstd_decompress zio_h_debug zeros_lib d (mem_of [255]) 9 16 0 =
          Inr (0, store (mem_of [255]) 0 (replicate 16 0), None)"
    by (rule exI [where x = d])
  with zio_h_debug_ok zeros_lib_ok show ?thesis
    by (simp add: zeros_lib_simps)
qed

text \<open>
  C2. The specification has a frame with \<open>payload_len + 8 > src_len\<close> rejected without
  a call of the codec and without a write to the destination. The code at an 8-byte
  source whose header announces one byte of payload: the guard compares
  \<open>payload_len + 4\<close> with \<open>s_len\<close> although the payload starts at offset 8, the codec
  is called on the byte past the end of the source, the call returns 0 and the destination
  is overwritten.
\<close>

theorem zstd_decompress_short_frame_reaches_codec:
  "unat (BE_IN32 (mem_of [0, 0, 0, 1, 0, 0, 0, 3, 16]) 0) + 8 > 8 \<and>
   zstd_decompress zio_h_debug zeros_lib (mem_of [0, 0, 0, 1, 0, 0, 0, 3, 16]) (mem_of [255]) 8 16 0 =
     Inr (0, store (mem_of [255]) 0 (replicate 16 0), None) \<and>
   store (mem_of [255]) 0 (replicate 16 0) 0 \<noteq> mem_of [255] 0"
proof -
  have "zstd_decompress zio_h_debug zeros_lib (mem_of [0, 0, 0, 1, 0, 0, 0, 3, 16]) (mem_of [255]) 8 16 0 =
     Inr (0, store (mem_of [255]) 0 (replicate 16 0), None)"
    by (rule zstd_decompress_zeros) (simp_all add: BE_IN32_mem_of_len1, simp add: mem_of_def)
  moreover have "unat (BE_IN32 (mem_of [0, 0, 0, 1, 0, 0, 0, 3, 16]) 0) + 8 > 8"
    by (simp add: BE_IN32_mem_of_len1)
  moreover have "store (mem_of [255]) 0 (replicate 16 0) 0 \<noteq> mem_of [255] 0"
    by (simp add: store_def mem_of_def)
  ultimately show ?thesis by (intro conjI)
qed

text \<open>
  C3. Compression is best effort: when the compression context cannot be created, or
  the codec answers with an error, \<^verbatim>\<open>zstd_compress\<close> returns exactly \<open>s_len\<close>.
  (With assertions compiled in, the sizes have to pass them for the call to get that far.)
\<close>

theorem zstd_compress_best_effort:
  assumes "zio_h_ok h"
    and "ZFS_DEBUG h \<longrightarrow> 4 \<le> d_len \<and> d_len \<le> s_len"
    and "\<not> ZSTD_createCCtx_advanced lib \<or>
         (\<exists>junk. ZSTD_compressCCtx lib (size_t_sub (size_t_sub d_len 4) 4)
                    (load s_start 0 s_len) (zstd_enum_to_cookie h n) = ZSTD_error junk)"
  shows "\<exists>d. zstd_compress h lib s_start d_start s_len d_len n = Inr (s_len, d)"
  using assms(2,3) by (auto simp: zstd_compress_unfold [OF assms(1)])

theorem zstd_compress_best_effort_witness:
  "zio_h_ok zio_h_debug \<and> ZFS_DEBUG zio_h_debug \<and> (4::nat) \<le> 16 \<and> (16::nat) \<le> 16 \<and>
   \<not> ZSTD_createCCtx_advanced (zeros_lib\<lparr>ZSTD_createCCtx_advanced := False\<rparr>) \<and>
   (\<exists>d. zstd_compress zio_h_debug (zeros_lib\<lparr>ZSTD_createCCtx_advanced := False\<rparr>)
           (mem_of []) (mem_of []) 16 16 1 = Inr (16, d))"
proof -
  have "\<not> ZSTD_createCCtx_advanced (zeros_lib\<lparr>ZSTD_createCCtx_advanced := False\<rparr>)"
    by simp
  with zstd_compress_best_effort [OF zio_h_debug_ok, of 16 16
      "zeros_lib\<lparr>ZSTD_createCCtx_advanced := False\<rparr>" "mem_of []" 1 "mem_of []"]
    zio_h_debug_ok
  show ?thesis by (simp add: zio_h_debug_simps)
qed

text \<open>
  C4. A compression that returns \<open>C \<noteq> s_len\<close> went through the codec, \<open>C\<close> is the
  codec's byte count plus 8, the length field of the header holds \<open>C - 8\<close>, and
  \<^verbatim>\<open>zstd_get_level\<close> on the frame succeeds with the requested level, or with the
  default level when INHERIT or DEFAULT was requested.
\<close>

theorem zstd_compress_header:
  assumes "zio_h_ok h"
    and "zstd_compress h lib s_start d_start s_len d_len (zio_zstd_levels_val h x) = Inr (C, d)"
    and "C \<noteq> s_len"
  shows "(\<exists>payload. ZSTD_compressCCtx lib (size_t_sub (size_t_sub d_len 4) 4)
                      (load s_start 0 s_len)
                      (zstd_enum_to_cookie h (zio_zstd_levels_val h x)) = ZSTD_done payload \<and>
                    C = length payload + 8) \<and>
         BE_IN32 d 0 = word_of_nat (C - 8) \<and>
         (C - 8 < 2 ^ 32 \<longrightarrow> unat (BE_IN32 d 0) = C - 8) \<and>
         zstd_get_level h d C (Some v) =
           Inr (0, Some (if x = ZIO_ZSTDLVL_INHERIT \<or> x = ZIO_ZSTDLVL_DEFAULT
                         then ZIO_ZSTD_LEVEL_DEFAULT h else zio_zstd_levels_val h x))"
proof -
  let ?c = "zstd_enum_to_cookie h (zio_zstd_levels_val h x)"
  from assms(2,3) obtain payload where
    p: "ZSTD_compressCCtx lib (size_t_sub (size_t_sub d_len 4) 4) (load s_start 0 s_len) ?c =
          ZSTD_done payload"
    and C: "C = length payload + 8"
    and d: "d = store (store (store d_start 8 payload) 0 (BE_32 (word_of_nat (length payload))))
                 4 (BE_32 (word_of_int ?c))"
    by (auto simp: zstd_compress_unfold [OF assms(1)] split: if_splits zstd_ret.splits)
  have len: "BE_IN32 d 0 = word_of_nat (C - 8)"
    unfolding d C by (simp add: frame_header)
  have "sint (BE_IN32 d 4) = ?c"
    unfolding d using enum_to_cookie_range [OF assms(1), of "zio_zstd_levels_val h x"]
    by (simp add: frame_header sint_word_of_int_32)
  then have lvl: "zstd_get_level h d C (Some v) = Inr (0, Some (zstd_cookie_to_enum h ?c))"
    by (simp add: zstd_get_level_unfold [OF assms(1)])
  have "zstd_cookie_to_enum h ?c =
          (if x = ZIO_ZSTDLVL_INHERIT \<or> x = ZIO_ZSTDLVL_DEFAULT
           then ZIO_ZSTD_LEVEL_DEFAULT h else zio_zstd_levels_val h x)"
    using enum_to_cookie_to_enum [OF assms(1), of x] inherit_default_cookie [OF assms(1), of x] cookie_3_default [OF assms(1)]
    by auto
  with p C len lvl show ?thesis
    by (auto simp: unat_word_of_nat_32)
qed

theorem zstd_compress_header_witness:
  "zio_h_ok zio_h_debug \<and>
   (\<exists>d. zstd_compress zio_h_debug zeros_lib (mem_of []) (mem_of []) 16 16
           (zio_zstd_levels_val zio_h_debug ZIO_ZSTDLVL_FAST_3) = Inr (9, d) \<and>
        (9::nat) \<noteq> 16 \<and> BE_IN32 d 0 = 1 \<and>
        zstd_get_level zio_h_debug d 9 (Some 0) = Inr (0, Some 105))"
proof -
  obtain d where d: "zstd_compress zio_h_debug zeros_lib (mem_of []) (mem_of []) 16 16
           (zio_zstd_levels_val zio_h_debug ZIO_ZSTDLVL_FAST_3) = Inr (9, d)"
    unfolding zeros_frame by blast
  have n: "(9::nat) \<noteq> 16" by simp
  note t = zstd_compress_header [OF zio_h_debug_ok d n, of 0]
  from t [THEN conjunct2, THEN conjunct1] have len: "BE_IN32 d 0 = 1" by simp
  from t [THEN conjunct2, THEN conjunct2, THEN conjunct2]
  have "zstd_get_level zio_h_debug d 9 (Some 0) = Inr (0, Some 105)"
    by (simp add: zio_h_debug_simps)
  with len n d have "zstd_compress zio_h_debug zeros_lib (mem_of []) (mem_of []) 16 16
           (zio_zstd_levels_val zio_h_debug ZIO_ZSTDLVL_FAST_3) = Inr (9, d) \<and>
        (9::nat) \<noteq> 16 \<and> BE_IN32 d 0 = 1 \<and>
        zstd_get_level zio_h_debug d 9 (Some 0) = Inr (0, Some 105)"
    by (intro conjI)
  then have "\<exists>d. zstd_compress zio_h_debug zeros_lib (mem_of []) (mem_of []) 16 16
           (zio_zstd_levels_val zio_h_debug ZIO_ZSTDLVL_FAST_3) = Inr (9, d) \<and>
        (9::nat) \<noteq> 16 \<and> BE_IN32 d 0 = 1 \<and>
        zstd_get_level zio_h_debug d 9 (Some 0) = Inr (0, Some 105)"
    by (rule exI [where x = d])
  with zio_h_debug_ok show ?thesis
    by (rule conjI)
qed

text \<open>
  C5. The specification has the decoder fail on a frame whose cookie is not in the level
  map, and the comment at the end of \<^verbatim>\<open>zstd_cookie_to_enum\<close> wants a panic there. The
  code at such a frame: the cookie 20 is in no entry of the table, and
  \<^verbatim>\<open>zstd_decompress\<close> returns 0 and writes the decompressed bytes.
\<close>

theorem zstd_decompress_accepts_unknown_cookie:
  "sint (BE_IN32 (mem_of [0, 0, 0, 1, 0, 0, 0, 20, 16]) 4) = 20 \<and>
   20 \<notin> cookie ` set (fastlevels zio_h_debug) \<and>
   zstd_decompress zio_h_debug zeros_lib (mem_of [0, 0, 0, 1, 0, 0, 0, 20, 16]) (mem_of [255]) 9 16 0 =
     Inr (0, store (mem_of [255]) 0 (replicate 16 0), None)"
proof -
  have "zstd_decompress zio_h_debug zeros_lib (mem_of [0, 0, 0, 1, 0, 0, 0, 20, 16]) (mem_of [255]) 9 16 0 =
     Inr (0, store (mem_of [255]) 0 (replicate 16 0), None)"
    by (rule zstd_decompress_zeros) (simp_all add: BE_IN32_mem_of_len1, simp add: mem_of_def)
  then show ?thesis
    by (simp add: BE_IN32_mem_of_20 cookie_20_unknown)
qed

text \<open>
  C6. For every logical level other than INHERIT and DEFAULT, translating the level to
  its codec cookie and the cookie back gives the level again: the level map is a
  bijection on the levels of the table.
\<close>

theorem level_map_roundtrip:
  assumes "zio_h_ok h" and "x \<noteq> ZIO_ZSTDLVL_INHERIT" and "x \<noteq> ZIO_ZSTDLVL_DEFAULT"
  shows "zstd_cookie_to_enum h (zstd_enum_to_cookie h (zio_zstd_levels_val h x)) =
         zio_zstd_levels_val h x"
  using assms by (rule enum_to_cookie_to_enum)

theorem level_map_roundtrip_witness:
  "zio_h_ok zio_h_debug \<and> ZIO_ZSTDLVL_FAST_3 \<noteq> ZIO_ZSTDLVL_INHERIT \<and>
   ZIO_ZSTDLVL_FAST_3 \<noteq> ZIO_ZSTDLVL_DEFAULT \<and>
   zstd_enum_to_cookie zio_h_debug (zio_zstd_levels_val zio_h_debug ZIO_ZSTDLVL_FAST_3) = - 3 \<and>
   zstd_cookie_to_enum zio_h_debug (- 3) = zio_zstd_levels_val zio_h_debug ZIO_ZSTDLVL_FAST_3"
proof -
  have c: "zstd_enum_to_cookie zio_h_debug (zio_zstd_levels_val zio_h_debug ZIO_ZSTDLVL_FAST_3) = - 3"
    by (simp add: zstd_enum_to_cookie_def fastlevels_def zio_h_debug_def)
  from level_map_roundtrip [OF zio_h_debug_ok, of ZIO_ZSTDLVL_FAST_3] c zio_h_debug_ok
  show ?thesis by simp
qed

text \<open>
  C7. The specification, and the header \<^verbatim>\<open>zfs_zstdhdr_t\<close> of the module, have bytes 4
  to 6 of a frame carry the format version and byte 7 the level tag. The code writes the
  codec cookie as a big-endian 32-bit value: the bytes are \<open>ff ff ff fd\<close> for the level
  fast-3 (whose tag is 105 in this numbering) and \<open>00 00 00 01\<close> for the level 1, so
  bytes 4 to 6 are no fixed version.
\<close>

theorem zstd_compress_offset_4_is_cookie:
  "(\<exists>d. zstd_compress zio_h_debug zeros_lib (mem_of []) (mem_of []) 16 16
            (zio_zstd_levels_val zio_h_debug ZIO_ZSTDLVL_FAST_3) = Inr (9, d) \<and>
         load d 4 4 = [255, 255, 255, 253]) \<and>
   (\<exists>d. zstd_compress zio_h_debug zeros_lib (mem_of []) (mem_of []) 16 16
            (zio_zstd_levels_val zio_h_debug ZIO_ZSTDLVL_1) = Inr (9, d) \<and>
         load d 4 4 = [0, 0, 0, 1]) \<and>
   zio_zstd_levels_val zio_h_debug ZIO_ZSTDLVL_FAST_3 = 105"
proof -
  obtain d where d: "zstd_compress zio_h_debug zeros_lib (mem_of []) (mem_of []) 16 16
            (zio_zstd_levels_val zio_h_debug ZIO_ZSTDLVL_FAST_3) = Inr (9, d)"
    unfolding zeros_frame by blast
  from zeros_frame_cookie [OF d] have "load d 4 4 = [255, 255, 255, 253]"
    by (simp only: cookie_of_fast_3 BE_32_minus_3)
  with d have fast: "\<exists>d. zstd_compress zio_h_debug zeros_lib (mem_of []) (mem_of []) 16 16
            (zio_zstd_levels_val zio_h_debug ZIO_ZSTDLVL_FAST_3) = Inr (9, d) \<and>
         load d 4 4 = [255, 255, 255, 253]"
    by (intro exI [where x = d] conjI)
  obtain e where e: "zstd_compress zio_h_debug zeros_lib (mem_of []) (mem_of []) 16 16
            (zio_zstd_levels_val zio_h_debug ZIO_ZSTDLVL_1) = Inr (9, e)"
    unfolding zeros_frame by blast
  from zeros_frame_cookie [OF e] have "load e 4 4 = [0, 0, 0, 1]"
    by (simp only: cookie_of_1 BE_32_1)
  with e have pos: "\<exists>d. zstd_compress zio_h_debug zeros_lib (mem_of []) (mem_of []) 16 16
            (zio_zstd_levels_val zio_h_debug ZIO_ZSTDLVL_1) = Inr (9, d) \<and>
         load d 4 4 = [0, 0, 0, 1]"
    by (intro exI [where x = e] conjI)
  have "zio_zstd_levels_val zio_h_debug ZIO_ZSTDLVL_FAST_3 = 105"
    by (simp add: zio_h_debug_simps)
  with fast pos show ?thesis by (intro conjI)
qed




text \<open>
  C9. \<^verbatim>\<open>zstd_get_level\<close> never reports an error: it returns 0 for every buffer and
  every \<open>s_len\<close>, its result does not depend on \<open>s_len\<close> (the header bytes are read
  whatever length was announced), and a cookie that is not in the level map is answered
  with the default level.
\<close>

theorem zstd_get_level_never_fails:
  assumes "zio_h_ok h"
  shows "(\<exists>l. zstd_get_level h s_start s_len lvl = Inr (0, l)) \<and>
         zstd_get_level h s_start s_len lvl = zstd_get_level h s_start 0 lvl \<and>
         (sint (BE_IN32 s_start 4) \<notin> cookie ` set (fastlevels h) \<longrightarrow>
            zstd_get_level h s_start s_len (Some v) = Inr (0, Some (ZIO_ZSTD_LEVEL_DEFAULT h)))"
  by (simp add: zstd_get_level_unfold [OF assms] zstd_cookie_to_enum_def
      scan_cookie_None [symmetric])

theorem zstd_get_level_never_fails_witness:
  "zio_h_ok zio_h_debug \<and>
   sint (BE_IN32 (mem_of [0, 0, 0, 1, 0, 0, 0, 20, 16]) 4) \<notin> cookie ` set (fastlevels zio_h_debug) \<and>
   zstd_get_level zio_h_debug (mem_of [0, 0, 0, 1, 0, 0, 0, 20, 16]) 2 (Some 0) = Inr (0, Some 3)"
proof -
  have u: "sint (BE_IN32 (mem_of [0, 0, 0, 1, 0, 0, 0, 20, 16]) 4) \<notin> cookie ` set (fastlevels zio_h_debug)"
    by (simp add: BE_IN32_mem_of_20 cookie_20_unknown)
  from zstd_get_level_never_fails [OF zio_h_debug_ok, of "mem_of [0, 0, 0, 1, 0, 0, 0, 20, 16]" 2 "Some 0" 0] u
  have "zstd_get_level zio_h_debug (mem_of [0, 0, 0, 1, 0, 0, 0, 20, 16]) 2 (Some 0) =
          Inr (0, Some (ZIO_ZSTD_LEVEL_DEFAULT zio_h_debug))"
    by (elim conjE impE)
  then have "zstd_get_level zio_h_debug (mem_of [0, 0, 0, 1, 0, 0, 0, 20, 16]) 2 (Some 0) =
          Inr (0, Some 3)"
    by (simp only: zio_h_debug_simps)
  with u zio_h_debug_ok show ?thesis
    by (intro conjI)
qed

text \<open>
  C10. When the pool and the platform allocator both answer \<^verbatim>\<open>NULL\<close>,
  \<^verbatim>\<open>zstd_dctx_alloc\<close> hands out the one fallback slab for any requested size: it
  writes the requested size (plus the header) into \<^verbatim>\<open>kmem_size\<close>, marks the buffer
  \<^verbatim>\<open>ZSTD_KMEM_DCTX\<close> and never compares the request with the capacity of the slab,
  which \<^verbatim>\<open>zstd_init\<close> fixed to the page-rounded estimate of the codec.
\<close>

theorem zstd_dctx_alloc_fallback_any_size:
  assumes "zstd_mempool_alloc (pool_count st) now (zstd_mempool_dctx st)
             ((sizeof_zstd_kmem + sz) mod 2 ^ 64) (the_heap st) = (None, slots, hp1)"
    and "vmem_alloc ((sizeof_zstd_kmem + sz) mod 2 ^ 64) KM_SLEEP hp1 = (None, hp2)"
    and "fb_mem (zstd_dctx_fallback st) = Some a"
    and "\<not> fb_barrier (zstd_dctx_fallback st)"
  shows "(\<exists>st'. zstd_dctx_alloc now st sz = Some (Some (a + sizeof_zstd_kmem), st') \<and>
            kmem (the_heap st') a =
              Some ((header_at hp2 a)\<lparr>kmem_type := ZSTD_KMEM_DCTX,
                                      kmem_size := (sizeof_zstd_kmem + sz) mod 2 ^ 64\<rparr>) \<and>
            fb_mem_size (zstd_dctx_fallback st') = fb_mem_size (zstd_dctx_fallback st) \<and>
            fb_mem (zstd_dctx_fallback st') = Some a \<and>
            fb_barrier (zstd_dctx_fallback st')) \<and>
         fb_mem_size (zstd_dctx_fallback (zstd_init k lib st0)) =
           P2ROUNDUP (ZSTD_estimateDCtxSize lib + sizeof_zstd_kmem) (PAGESIZE k)"
  using assms by (simp add: zstd_dctx_alloc_def Let_def zstd_init_fields)

theorem zstd_dctx_alloc_fallback_any_size_witness:
  "zstd_mempool_alloc (pool_count zstd_state_1cpu) 0 (zstd_mempool_dctx zstd_state_1cpu)
     ((sizeof_zstd_kmem + 1000000) mod 2 ^ 64) (the_heap zstd_state_1cpu) =
     (None, zstd_mempool_dctx zstd_state_1cpu, the_heap zstd_state_1cpu) \<and>
   vmem_alloc ((sizeof_zstd_kmem + 1000000) mod 2 ^ 64) KM_SLEEP (the_heap zstd_state_1cpu) =
     (None, the_heap zstd_state_1cpu) \<and>
   fb_mem (zstd_dctx_fallback zstd_state_1cpu) = Some 8192 \<and>
   \<not> fb_barrier (zstd_dctx_fallback zstd_state_1cpu) \<and>
   fb_mem_size (zstd_dctx_fallback zstd_state_1cpu) = 4096 \<and>
   (\<exists>st'. zstd_dctx_alloc 0 zstd_state_1cpu 1000000 = Some (Some 8216, st') \<and>
      kmem (the_heap st') 8192 =
        Some \<lparr>kmem_type = ZSTD_KMEM_DCTX, kmem_size = 1000024, pool = None\<rparr> \<and>
      fb_mem_size (zstd_dctx_fallback st') = 4096)"
proof -
  have pool: "zstd_mempool_alloc (pool_count zstd_state_1cpu) 0 (zstd_mempool_dctx zstd_state_1cpu)
     ((sizeof_zstd_kmem + 1000000) mod 2 ^ 64) (the_heap zstd_state_1cpu) =
     (None, zstd_mempool_dctx zstd_state_1cpu, the_heap zstd_state_1cpu)"
    by (simp add: init_1cpu mempool_alloc_exhausted)
  have heap: "vmem_alloc ((sizeof_zstd_kmem + 1000000) mod 2 ^ 64) KM_SLEEP (the_heap zstd_state_1cpu) =
     (None, the_heap zstd_state_1cpu)"
    by (simp add: init_1cpu vmem_alloc_def)
  have slab: "fb_mem (zstd_dctx_fallback zstd_state_1cpu) = Some 8192"
    by (simp add: init_1cpu)
  have free: "\<not> fb_barrier (zstd_dctx_fallback zstd_state_1cpu)"
    by (simp add: init_1cpu)
  have cap: "fb_mem_size (zstd_dctx_fallback zstd_state_1cpu) = 4096"
    by (simp add: init_1cpu)
  have hdr: "header_at (the_heap zstd_state_1cpu) 8192 = zstd_kmem_zero"
    by (simp add: init_1cpu header_at_def)
  from zstd_dctx_alloc_fallback_any_size [OF pool heap slab free, THEN conjunct1]
  obtain st' where st': "zstd_dctx_alloc 0 zstd_state_1cpu 1000000 = Some (Some (8192 + sizeof_zstd_kmem), st')"
    "kmem (the_heap st') 8192 =
       Some ((header_at (the_heap zstd_state_1cpu) 8192)\<lparr>kmem_type := ZSTD_KMEM_DCTX,
               kmem_size := (sizeof_zstd_kmem + 1000000) mod 2 ^ 64\<rparr>)"
    "fb_mem_size (zstd_dctx_fallback st') = fb_mem_size (zstd_dctx_fallback zstd_state_1cpu)"
    by blast
  from st' hdr cap have "zstd_dctx_alloc 0 zstd_state_1cpu 1000000 = Some (Some 8216, st') \<and>
      kmem (the_heap st') 8192 =
        Some \<lparr>kmem_type = ZSTD_KMEM_DCTX, kmem_size = 1000024, pool = None\<rparr> \<and>
      fb_mem_size (zstd_dctx_fallback st') = 4096"
    by (simp add: sizeof_zstd_kmem_def zstd_kmem_zero_def)
  then have "\<exists>st'. zstd_dctx_alloc 0 zstd_state_1cpu 1000000 = Some (Some 8216, st') \<and>
      kmem (the_heap st') 8192 =
        Some \<lparr>kmem_type = ZSTD_KMEM_DCTX, kmem_size = 1000024, pool = None\<rparr> \<and>
      fb_mem_size (zstd_dctx_fallback st') = 4096"
    by (rule exI [where x = st'])
  with pool heap slab free cap show ?thesis
    by (intro conjI)
qed

end
